theory Spec2Isabelle
  imports Main "HOL-Library.AList"
begin

section \<open>Values of the template language\<close>

text \<open>
  The resolvers of \<^verbatim>\<open>lib/appsync-cdk-chat-app-stack.ts\<close> are mapping templates: text of
  the Velocity template language that the GraphQL service evaluates for each request. A
  template reads the request context, may change maps in place, and prints a JSON document
  that names the store operation. The values a template handles are JSON values; a map
  keeps its entries in insertion order, so it is an association list.
\<close>

text \<open>\<open>JNum\<close> is a whole number; \<open>JDec\<close> is a number with a fraction or an exponent, kept
  as it is written.\<close>

datatype json =
    JNull
  | JBool bool
  | JNum int
  | JDec string
  | JStr string
  | JList "json list"
  | JObj "(string \<times> json) list"

text \<open>\<^verbatim>\<open>$m.k\<close>: reading a key that the map does not hold gives null.\<close>

definition get_field :: "(string \<times> json) list \<Rightarrow> string \<Rightarrow> json" where
  "get_field m k = (case map_of m k of None \<Rightarrow> JNull | Some v \<Rightarrow> v)"

text \<open>\<^verbatim>\<open>$m.put(k, v)\<close>: replaces the value of a key in place, or appends the entry.\<close>

definition put :: "(string \<times> json) list \<Rightarrow> string \<Rightarrow> json \<Rightarrow> (string \<times> json) list" where
  "put m k v = AList.update k v m"

fun fields_of :: "json \<Rightarrow> (string \<times> json) list" where
  "fields_of (JObj m) = m"
| "fields_of _ = []"

text \<open>The member \<open>k\<close> of a JSON object, if it has one.\<close>

definition field_of :: "json \<Rightarrow> string \<Rightarrow> json option" where
  "field_of d k = map_of (fields_of d) k"

text \<open>\<^verbatim>\<open>$util.isNull\<close>, \<^verbatim>\<open>$util.defaultIfNull\<close>, and the test of \<^verbatim>\<open>#if( $v )\<close>, which
  holds for every value but null and false.\<close>

definition isNull :: "json \<Rightarrow> bool" where
  "isNull v = (v = JNull)"

definition defaultIfNull :: "json \<Rightarrow> json \<Rightarrow> json" where
  "defaultIfNull v d = (if isNull v then d else v)"

definition truthy :: "json \<Rightarrow> bool" where
  "truthy v = (v \<noteq> JNull \<and> v \<noteq> JBool False)"

text \<open>\<^verbatim>\<open>$util.dynamodb.toDynamoDB\<close>: a value in the store's typed format; and
  \<^verbatim>\<open>$util.dynamodb.toMapValues\<close>, which converts each value of a map and keeps the keys.\<close>

fun toDynamoDB :: "json \<Rightarrow> json" where
  "toDynamoDB JNull = JObj [(''NULL'', JNull)]"
| "toDynamoDB (JBool b) = JObj [(''BOOL'', JBool b)]"
| "toDynamoDB (JNum n) = JObj [(''N'', JNum n)]"
| "toDynamoDB (JDec x) = JObj [(''N'', JDec x)]"
| "toDynamoDB (JStr s) = JObj [(''S'', JStr s)]"
| "toDynamoDB (JList xs) = JObj [(''L'', JList (map toDynamoDB xs))]"
| "toDynamoDB (JObj m) = JObj [(''M'', JObj (map (map_prod id toDynamoDB) m))]"

definition toMapValues :: "(string \<times> json) list \<Rightarrow> json" where
  "toMapValues m = JObj (map (map_prod id toDynamoDB) m)"

section \<open>The request context and the service's utilities\<close>

text \<open>
  \<^verbatim>\<open>$context\<close> (also \<^verbatim>\<open>$ctx\<close>): the arguments of the GraphQL field, the input object of a
  mutation (\<^verbatim>\<open>$ctx.args.input\<close>, a map by its GraphQL input type), the user name of the
  signed-in caller (the API authorizes with the user pool only), and, for a response
  template, the store's error and result.
\<close>

record store_error =
  message :: string
  errtype :: string

record ctx =
  arguments :: "(string \<times> json) list"
  input :: "(string \<times> json) list"
  username :: string
  error :: "store_error option"
  result :: json

text \<open>
  What the service's utilities return during one evaluation: \<^verbatim>\<open>$util.autoId()\<close> and
  \<^verbatim>\<open>$util.time.nowISO8601()\<close>. Every template is evaluated with them at hand.
\<close>

record env =
  autoId :: string
  nowISO8601 :: string

section \<open>What a template prints, and how the service reads it\<close>

text \<open>
  A template's JSON text is a skeleton with holes. \<open>Lit\<close> is a value printed as
  well-formed JSON (spelled out in the template, or printed by \<^verbatim>\<open>$util.toJson\<close> and its
  DynamoDB variants); \<open>Quoted\<close> is a reference printed as it is between two double
  quotes, as in \<^verbatim>\<open>"$context.arguments.nextToken"\<close>; \<open>Obj\<close> is an object whose braces and
  keys the template spells.
\<close>

datatype jtext =
    Lit json
  | Quoted json
  | Obj "(string \<times> jtext) list"

text \<open>
  The output of a template: text that is not white space, the printed value of a
  reference that stands in the text, and JSON documents.
\<close>

datatype piece =
    Text string
  | Printed json
  | Doc jtext

text \<open>
  \<open>MappingTemplate\<close> is the service's error for an evaluated template that is not one
  JSON document.
\<close>

datatype engine_error = MappingTemplate

subsection \<open>How a value prints into the text\<close>

text \<open>
  A reference in the text prints the value as the template language does: a string as it
  is, with no quotes and no escapes, a number in decimal digits, a list and a map in the
  form of the platform's collections.
\<close>

fun dec :: "nat \<Rightarrow> string" where
  "dec n = (if n < 10 then [char_of (48 + n)] else dec (n div 10) @ [char_of (48 + n mod 10)])"

declare dec.simps [simp del]

fun commas :: "string list \<Rightarrow> string" where
  "commas [] = []"
| "commas [x] = x"
| "commas (x # y # ys) = x @ '', '' @ commas (y # ys)"

fun printed :: "json \<Rightarrow> string" where
  "printed JNull = ''null''"
| "printed (JBool b) = (if b then ''true'' else ''false'')"
| "printed (JNum n) = (if n < 0 then CHR ''-'' # dec (nat (- n)) else dec (nat n))"
| "printed (JDec x) = x"
| "printed (JStr x) = x"
| "printed (JList xs) = CHR 0x5B # commas (map printed xs) @ [CHR 0x5D]"
| "printed (JObj m) =
    CHR 0x7B # commas (map (\<lambda>kv. fst kv @ ''='' @ snd kv) (map (map_prod id printed) m))
      @ [CHR 0x7D]"

subsection \<open>Reading JSON text\<close>

text \<open>
  The service reads the printed text as JSON. Where the template prints a value with
  \<^verbatim>\<open>$util.toJson\<close> the text is that value's JSON and reads back as the value. Where the
  template prints a reference between two double quotes, the text is read character by
  character: a backslash starts an escape, the first double quote that is not escaped
  ends the literal, a raw control character is refused.

  Characters are bytes, and a \<^verbatim>\<open>\u\<close> escape reads as the UTF-8 bytes of its code point
  (the two halves of a surrogate pair are not joined). The members of an object are kept
  in the order of the text, a repeated key included.
\<close>

definition is_ws :: "char \<Rightarrow> bool" where
  "is_ws c = (c = CHR 0x20 \<or> c = CHR 0x09 \<or> c = CHR 0x0A \<or> c = CHR 0x0D)"

definition skip_ws :: "string \<Rightarrow> string" where
  "skip_ws s = dropWhile is_ws s"

definition is_digit :: "char \<Rightarrow> bool" where
  "is_digit c = (48 \<le> (of_char c :: nat) \<and> (of_char c :: nat) \<le> 57)"

definition hex_digit :: "char \<Rightarrow> nat option" where
  "hex_digit c =
    (let n = (of_char c :: nat)
     in if 48 \<le> n \<and> n \<le> 57 then Some (n - 48)
        else if 97 \<le> n \<and> n \<le> 102 then Some (n - 87)
        else if 65 \<le> n \<and> n \<le> 70 then Some (n - 55)
        else None)"

definition hex4 :: "char \<Rightarrow> char \<Rightarrow> char \<Rightarrow> char \<Rightarrow> nat option" where
  "hex4 a b c d =
    (case (hex_digit a, hex_digit b, hex_digit c, hex_digit d) of
       (Some w, Some x, Some y, Some z) \<Rightarrow> Some (((w * 16 + x) * 16 + y) * 16 + z)
     | _ \<Rightarrow> None)"

definition utf8 :: "nat \<Rightarrow> string" where
  "utf8 n =
    (if n < 128 then [char_of n]
     else if n < 2048 then [char_of (192 + n div 64), char_of (128 + n mod 64)]
     else [char_of (224 + n div 4096), char_of (128 + n div 64 mod 64),
           char_of (128 + n mod 64)])"

fun unescape :: "char \<Rightarrow> char option" where
  "unescape c =
    (if c = CHR 0x22 then Some (CHR 0x22)
     else if c = CHR 0x5C then Some (CHR 0x5C)
     else if c = CHR ''/'' then Some (CHR ''/'')
     else if c = CHR ''b'' then Some (CHR 0x08)
     else if c = CHR ''f'' then Some (CHR 0x0C)
     else if c = CHR ''n'' then Some (CHR 0x0A)
     else if c = CHR ''r'' then Some (CHR 0x0D)
     else if c = CHR ''t'' then Some (CHR 0x09)
     else None)"

text \<open>
  The text after an opening double quote: the string it spells up to the closing quote,
  and the text that is left after that quote.
\<close>

fun string_body :: "string \<Rightarrow> (string \<times> string) option" where
  "string_body [] = None"
| "string_body (c # cs) =
    (if c = CHR 0x22 then Some ([], cs)
     else if c = CHR 0x5C then
       (case cs of
          [] \<Rightarrow> None
        | d # ds \<Rightarrow>
           if d = CHR ''u'' then
             (case ds of
                h1 # h2 # h3 # h4 # es \<Rightarrow>
                  (case hex4 h1 h2 h3 h4 of
                     None \<Rightarrow> None
                   | Some n \<Rightarrow> map_option (map_prod (append (utf8 n)) id) (string_body es))
              | _ \<Rightarrow> None)
           else
             (case unescape d of
                None \<Rightarrow> None
              | Some x \<Rightarrow> map_option (map_prod (Cons x) id) (string_body ds)))
     else if (of_char c :: nat) < 32 then None
     else map_option (map_prod (Cons c) id) (string_body cs))"

definition digits_value :: "string \<Rightarrow> nat" where
  "digits_value ds = foldl (\<lambda>a c. 10 * a + ((of_char c :: nat) - 48)) 0 ds"

definition read_fraction :: "string \<Rightarrow> (string \<times> string) option" where
  "read_fraction s =
    (case s of
       [] \<Rightarrow> Some ([], s)
     | c # cs \<Rightarrow>
        if c = CHR ''.'' then
          (if takeWhile is_digit cs = [] then None
           else Some (c # takeWhile is_digit cs, dropWhile is_digit cs))
        else Some ([], s))"

definition read_exponent :: "string \<Rightarrow> (string \<times> string) option" where
  "read_exponent s =
    (case s of
       [] \<Rightarrow> Some ([], s)
     | c # cs \<Rightarrow>
        if c = CHR ''e'' \<or> c = CHR ''E'' then
          (let (sign, ds) =
                 (case cs of
                    [] \<Rightarrow> ([], cs)
                  | d # r \<Rightarrow> if d = CHR ''+'' \<or> d = CHR ''-'' then ([d], r) else ([], cs))
           in if takeWhile is_digit ds = [] then None
              else Some (c # sign @ takeWhile is_digit ds, dropWhile is_digit ds))
        else Some ([], s))"

definition read_number :: "string \<Rightarrow> (json \<times> string) option" where
  "read_number s =
    (let (sign, s1) =
           (case s of
              [] \<Rightarrow> ([], s)
            | c # cs \<Rightarrow> if c = CHR ''-'' then ([c], cs) else ([], s));
         ds = takeWhile is_digit s1
     in if ds = [] \<or> (1 < length ds \<and> hd ds = CHR ''0'') then None
        else
          (case read_fraction (dropWhile is_digit s1) of
             None \<Rightarrow> None
           | Some (f, r1) \<Rightarrow>
              (case read_exponent r1 of
                 None \<Rightarrow> None
               | Some (x, r2) \<Rightarrow>
                  if f = [] \<and> x = [] then
                    Some (JNum (if sign = [] then int (digits_value ds)
                                else - int (digits_value ds)), r2)
                  else Some (JDec (sign @ ds @ f @ x), r2))))"

text \<open>
  One JSON value at the head of a text, and the text after it. The first argument bounds
  the depth of the calls. The callers below pass twice the length of the text, plus two:
  of two calls in a row at least one comes after a character that has been read.
\<close>

fun read_value :: "nat \<Rightarrow> string \<Rightarrow> (json \<times> string) option"
  and read_members :: "nat \<Rightarrow> string \<Rightarrow> ((string \<times> json) list \<times> string) option"
  and read_elements :: "nat \<Rightarrow> string \<Rightarrow> (json list \<times> string) option" where
  "read_value 0 s = None"
| "read_value (Suc n) s =
    (case skip_ws s of
       [] \<Rightarrow> None
     | c # cs \<Rightarrow>
        if c = CHR 0x22 then map_option (map_prod JStr id) (string_body cs)
        else if c = CHR 0x7B then
          (case skip_ws cs of
             [] \<Rightarrow> None
           | d # ds \<Rightarrow>
              if d = CHR 0x7D then Some (JObj [], ds)
              else map_option (map_prod JObj id) (read_members n cs))
        else if c = CHR 0x5B then
          (case skip_ws cs of
             [] \<Rightarrow> None
           | d # ds \<Rightarrow>
              if d = CHR 0x5D then Some (JList [], ds)
              else map_option (map_prod JList id) (read_elements n cs))
        else if take 4 (c # cs) = ''true'' then Some (JBool True, drop 3 cs)
        else if take 5 (c # cs) = ''false'' then Some (JBool False, drop 4 cs)
        else if take 4 (c # cs) = ''null'' then Some (JNull, drop 3 cs)
        else read_number (c # cs))"
| "read_members 0 s = None"
| "read_members (Suc n) s =
    (case skip_ws s of
       [] \<Rightarrow> None
     | c # cs \<Rightarrow>
        if c \<noteq> CHR 0x22 then None
        else
          (case string_body cs of
             None \<Rightarrow> None
           | Some (k, r) \<Rightarrow>
              (case skip_ws r of
                 [] \<Rightarrow> None
               | d # ds \<Rightarrow>
                  if d \<noteq> CHR '':'' then None
                  else
                    (case read_value n ds of
                       None \<Rightarrow> None
                     | Some (v, r') \<Rightarrow>
                        (case skip_ws r' of
                           [] \<Rightarrow> None
                         | x # xs \<Rightarrow>
                            if x = CHR '','' then
                              map_option (map_prod (Cons (k, v)) id) (read_members n xs)
                            else if x = CHR 0x7D then Some ([(k, v)], xs)
                            else None)))))"
| "read_elements 0 s = None"
| "read_elements (Suc n) s =
    (case read_value n s of
       None \<Rightarrow> None
     | Some (v, r) \<Rightarrow>
        (case skip_ws r of
           [] \<Rightarrow> None
         | x # xs \<Rightarrow>
            if x = CHR '','' then map_option (map_prod (Cons v) id) (read_elements n xs)
            else if x = CHR 0x5D then Some ([v], xs)
            else None))"

text \<open>
  The text that follows a member's value inside an object, up to the point where the
  template goes on: nothing but white space, or further members, each after a comma.
\<close>

fun read_more :: "nat \<Rightarrow> string \<Rightarrow> (string \<times> json) list option" where
  "read_more 0 s = None"
| "read_more (Suc n) s =
    (case skip_ws s of
       [] \<Rightarrow> Some []
     | c # cs \<Rightarrow>
        if c \<noteq> CHR '','' then None
        else
          (case skip_ws cs of
             [] \<Rightarrow> None
           | q # qs \<Rightarrow>
              if q \<noteq> CHR 0x22 then None
              else
                (case string_body qs of
                   None \<Rightarrow> None
                 | Some (k, r) \<Rightarrow>
                    (case skip_ws r of
                       [] \<Rightarrow> None
                     | d # ds \<Rightarrow>
                        if d \<noteq> CHR '':'' then None
                        else
                          (case read_value (2 * length ds + 2) ds of
                             None \<Rightarrow> None
                           | Some (v, r') \<Rightarrow> map_option (Cons (k, v)) (read_more n r'))))))"

text \<open>A plain string has nothing that a string literal would read differently.\<close>

definition plain :: "string \<Rightarrow> bool" where
  "plain s = list_all (\<lambda>c. c \<noteq> CHR 0x22 \<and> c \<noteq> CHR 0x5C \<and> 32 \<le> (of_char c :: nat)) s"

text \<open>
  Reading the printed JSON text back. The text of a quoted reference is the printed value
  and the closing quote of the template. As the value of a member it may end the literal
  early and go on with members of its own; they come to stand in the object, after that
  member. Anything else after the early end makes the text no JSON document.
\<close>

fun parse_jtext :: "jtext \<Rightarrow> json option"
  and parse_fields :: "(string \<times> jtext) list \<Rightarrow> (string \<times> json) list option" where
  "parse_jtext (Lit j) = Some j"
| "parse_jtext (Quoted v) =
    (case string_body (printed v @ [CHR 0x22]) of
       None \<Rightarrow> None
     | Some (x, r) \<Rightarrow> if r = [] then Some (JStr x) else None)"
| "parse_jtext (Obj fs) = map_option JObj (parse_fields fs)"
| "parse_fields [] = Some []"
| "parse_fields ((k, Quoted v) # fs) =
    (case string_body (printed v @ [CHR 0x22]) of
       None \<Rightarrow> None
     | Some (x, r) \<Rightarrow>
        (case read_more (length r + 1) r of
           None \<Rightarrow> None
         | Some ms \<Rightarrow>
            (case parse_fields fs of
               None \<Rightarrow> None
             | Some js \<Rightarrow> Some ((k, JStr x) # ms @ js))))"
| "parse_fields ((k, t) # fs) =
    (case parse_jtext t of
       None \<Rightarrow> None
     | Some j \<Rightarrow> (case parse_fields fs of None \<Rightarrow> None | Some js \<Rightarrow> Some ((k, j) # js)))"

fun entries :: "jtext \<Rightarrow> (string \<times> jtext) list" where
  "entries (Obj fs) = fs"
| "entries _ = []"

text \<open>
  The service takes the evaluated request template as one JSON document. Any other text
  in the output makes the document unreadable, and the request fails before the store is
  called.
\<close>

fun evaluate :: "piece list \<Rightarrow> engine_error + json" where
  "evaluate [Doc t] = (case parse_jtext t of None \<Rightarrow> Inl MappingTemplate | Some j \<Rightarrow> Inr j)"
| "evaluate _ = Inl MappingTemplate"

section \<open>The tables\<close>

text \<open>
  The two tables as the stack declares them: each has the partition key \<^verbatim>\<open>id\<close> and no
  sort key; the message table has one global secondary index, \<^verbatim>\<open>message-by-room-id\<close>, with
  partition key \<^verbatim>\<open>roomId\<close> and sort key \<^verbatim>\<open>createdAt\<close>.
\<close>

record key_schema =
  partitionKey :: string
  sortKey :: "string option"

record table =
  primaryKey :: key_schema
  globalSecondaryIndexes :: "(string \<times> key_schema) list"

definition messageTable :: table where
  "messageTable =
    \<lparr>primaryKey = \<lparr>partitionKey = ''id'', sortKey = None\<rparr>,
     globalSecondaryIndexes =
       [(''message-by-room-id'', \<lparr>partitionKey = ''roomId'', sortKey = Some ''createdAt''\<rparr>)]\<rparr>"

definition roomTable :: table where
  "roomTable =
    \<lparr>primaryKey = \<lparr>partitionKey = ''id'', sortKey = None\<rparr>, globalSecondaryIndexes = []\<rparr>"

text \<open>
  The store runs a Query on the index that the request names in its member \<^verbatim>\<open>index\<close>, and
  on the table's own key when the request names none; \<^verbatim>\<open>scanIndexForward\<close> is the direction
  along the sort key of that key schema.
\<close>

definition query_keys :: "table \<Rightarrow> json \<Rightarrow> key_schema option" where
  "query_keys t d =
    (case field_of d ''index'' of
       None \<Rightarrow> Some (primaryKey t)
     | Some (JStr n) \<Rightarrow> map_of (globalSecondaryIndexes t) n
     | Some _ \<Rightarrow> None)"

section \<open>Query.listMessageForRoom\<close>

definition listMessageForRoom_document :: "env \<Rightarrow> ctx \<Rightarrow> jtext" where
  "listMessageForRoom_document e c =
    Obj ([(''version'', Lit (JStr ''2017-02-28'')),
          (''operation'', Lit (JStr ''Query'')),
          (''query'', Obj
             [(''expression'', Lit (JStr ''roomId = :roomId'')),
              (''expressionValue'', Obj
                 [('':roomId'', Lit (toDynamoDB (get_field (arguments c) ''roomId'')))])])]
         @ (if \<not> isNull (get_field (arguments c) ''sortDirection'')
               \<and> get_field (arguments c) ''sortDirection'' = JStr ''DESC''
            then [(''scanIndexForward'', Lit (JBool False))]
            else [(''scanIndexForward'', Lit (JBool True))])
         @ (if truthy (get_field (arguments c) ''nextToken'')
            then [(''nextToken'', Quoted (get_field (arguments c) ''nextToken''))]
            else []))"

definition listMessageForRoom_request :: "env \<Rightarrow> ctx \<Rightarrow> piece list" where
  "listMessageForRoom_request e c = [Doc (listMessageForRoom_document e c)]"

text \<open>
  A response template either raises an error with \<^verbatim>\<open>$util.error(message, type)\<close>, which
  ends the evaluation, or prints a value with \<^verbatim>\<open>$util.toJson\<close>. The service hands a
  store error to the response template in \<^verbatim>\<open>$ctx.error\<close>; from template version
  \<^verbatim>\<open>2018-05-29\<close> on, the caller sees that error only if the template raises it.
\<close>

datatype response =
    Raised string string
  | Rendered json

definition listMessageForRoom_response :: "ctx \<Rightarrow> response" where
  "listMessageForRoom_response c =
    (case error c of
       Some er \<Rightarrow> Raised (message er) (errtype er)
     | None \<Rightarrow> Rendered (result c))"

section \<open>Mutation.createMessage\<close>

text \<open>
  The input map after the three \<^verbatim>\<open>put\<close> calls of the template. The second call stands in
  a line that starts with \<^verbatim>\<open>util.qr(\<close>, without the dollar sign: the line is text, the
  reference inside it is still evaluated, and the value that \<^verbatim>\<open>put\<close> returns (the value
  the key had before) is printed between \<^verbatim>\<open>util.qr(\<close> and \<^verbatim>\<open>)\<close>.
\<close>

definition createMessage_input :: "env \<Rightarrow> ctx \<Rightarrow> (string \<times> json) list" where
  "createMessage_input e c =
    (let input1 = put (input c) ''id''
                    (defaultIfNull (get_field (input c) ''id'') (JStr (autoId e)));
         createdAt = JStr (nowISO8601 e);
         input2 = put input1 ''createdAt''
                    (defaultIfNull (get_field input1 ''createdAt'') createdAt)
     in put input2 ''owner'' (JStr (username c)))"

definition createMessage_condition :: json where
  "createMessage_condition =
    JObj [(''expression'', JStr ''attribute_not_exists(#id)''),
          (''expressionNames'', JObj [(''#id'', JStr ''id'')])]"

definition createMessage_document :: "env \<Rightarrow> ctx \<Rightarrow> jtext" where
  "createMessage_document e c =
    Obj [(''version'', Lit (JStr ''2018-05-29'')),
         (''operation'', Lit (JStr ''PutItem'')),
         (''key'', Obj [(''id'', Lit (toDynamoDB (get_field (createMessage_input e c) ''id'')))]),
         (''attributeValues'', Lit (toMapValues (createMessage_input e c))),
         (''condition'', Lit createMessage_condition)]"

definition createMessage_request :: "env \<Rightarrow> ctx \<Rightarrow> piece list" where
  "createMessage_request e c =
    (let input1 = put (input c) ''id''
                    (defaultIfNull (get_field (input c) ''id'') (JStr (autoId e)))
     in [Text ''util.qr('', Printed (get_field input1 ''createdAt''), Text '')'',
         Doc (createMessage_document e c)])"

text \<open>
  \<^verbatim>\<open>MappingTemplate.dynamoDbResultItem()\<close> is a helper of the CDK library
  \<^verbatim>\<open>@aws-cdk/aws-appsync\<close>; its template is the one line \<^verbatim>\<open>$util.toJson($ctx.result)\<close>.
\<close>

definition dynamoDbResultItem :: "ctx \<Rightarrow> response" where
  "dynamoDbResultItem c = Rendered (result c)"

definition createMessage_response :: "ctx \<Rightarrow> response" where
  "createMessage_response c = dynamoDbResultItem c"

section \<open>Query.listRooms\<close>

definition listRooms_ListRequest :: "env \<Rightarrow> ctx \<Rightarrow> (string \<times> json) list" where
  "listRooms_ListRequest e c =
    (let limit = defaultIfNull (get_field (arguments c) ''limit'') (JNum 1000);
         ListRequest = [(''version'', JStr ''2018-05-29''), (''limit'', limit)];
         ListRequest1 =
           (if truthy (get_field (arguments c) ''nextToken'')
            then put ListRequest ''nextToken'' (get_field (arguments c) ''nextToken'')
            else ListRequest)
     in put ListRequest1 ''operation'' (JStr ''Scan''))"

definition listRooms_request :: "env \<Rightarrow> ctx \<Rightarrow> piece list" where
  "listRooms_request e c = [Doc (Lit (JObj (listRooms_ListRequest e c)))]"

definition listRooms_response :: "ctx \<Rightarrow> response" where
  "listRooms_response c =
    (case error c of
       Some er \<Rightarrow> Raised (message er) (errtype er)
     | None \<Rightarrow> Rendered (result c))"

section \<open>Mutation.createRoom\<close>

text \<open>
  The template sets no \<^verbatim>\<open>$condition\<close>; the reference is null where
  \<^verbatim>\<open>$util.toJson($condition)\<close> prints it.
\<close>

definition createRoom_input :: "env \<Rightarrow> ctx \<Rightarrow> (string \<times> json) list" where
  "createRoom_input e c =
    put (input c) ''id'' (defaultIfNull (get_field (input c) ''id'') (JStr (autoId e)))"

definition createRoom_condition :: json where
  "createRoom_condition = JNull"

definition createRoom_document :: "env \<Rightarrow> ctx \<Rightarrow> jtext" where
  "createRoom_document e c =
    Obj [(''version'', Lit (JStr ''2018-05-29'')),
         (''operation'', Lit (JStr ''PutItem'')),
         (''key'', Obj [(''id'', Lit (toDynamoDB (get_field (createRoom_input e c) ''id'')))]),
         (''attributeValues'', Lit (toMapValues (createRoom_input e c))),
         (''condition'', Lit createRoom_condition)]"

definition createRoom_request :: "env \<Rightarrow> ctx \<Rightarrow> piece list" where
  "createRoom_request e c = [Doc (createRoom_document e c)]"

definition createRoom_response :: "ctx \<Rightarrow> response" where
  "createRoom_response c = dynamoDbResultItem c"

section \<open>Maps and printed documents\<close>

lemma map_of_put: "map_of (put m k v) = (map_of m)(k \<mapsto> v)"
  by (simp add: put_def update_conv')

lemma map_of_converted: "map_of (map (map_prod id f) m) k = map_option f (map_of m k)"
  by (induction m) auto

lemma field_of_toMapValues: "field_of (toMapValues m) k = map_option toDynamoDB (map_of m k)"
  by (simp add: field_of_def toMapValues_def map_of_converted)

lemma string_body_plain: "plain s \<Longrightarrow> string_body (s @ [CHR 0x22]) = Some (s, [])"
  by (induction s) (auto simp: plain_def)

lemma createMessage_input_owner:
  "map_of (createMessage_input e c) ''owner'' = Some (JStr (username c))"
  by (simp add: createMessage_input_def Let_def map_of_put)

lemma createMessage_input_id:
  "map_of (createMessage_input e c) ''id'' =
     Some (defaultIfNull (get_field (input c) ''id'') (JStr (autoId e)))"
  by (simp add: createMessage_input_def Let_def map_of_put)

lemma createMessage_input_createdAt:
  "map_of (createMessage_input e c) ''createdAt'' =
     Some (defaultIfNull (get_field (input c) ''createdAt'') (JStr (nowISO8601 e)))"
  by (simp add: createMessage_input_def Let_def map_of_put get_field_def)

lemma createRoom_input_id:
  "map_of (createRoom_input e c) ''id'' =
     Some (defaultIfNull (get_field (input c) ''id'') (JStr (autoId e)))"
  by (simp add: createRoom_input_def map_of_put)

lemma get_field_createMessage_input_id:
  "get_field (createMessage_input e c) ''id'' =
     defaultIfNull (get_field (input c) ''id'') (JStr (autoId e))"
  by (simp add: get_field_def[of "createMessage_input e c"] createMessage_input_id)

lemma get_field_createRoom_input_id:
  "get_field (createRoom_input e c) ''id'' =
     defaultIfNull (get_field (input c) ''id'') (JStr (autoId e))"
  by (simp add: get_field_def[of "createRoom_input e c"] createRoom_input_id)

text \<open>The two PutItem documents hold printed values only, so they always read back.\<close>

lemma parse_createMessage_document:
  "parse_jtext (createMessage_document e c) =
     Some (JObj [(''version'', JStr ''2018-05-29''),
                 (''operation'', JStr ''PutItem''),
                 (''key'', JObj [(''id'', toDynamoDB (get_field (createMessage_input e c) ''id''))]),
                 (''attributeValues'', toMapValues (createMessage_input e c)),
                 (''condition'', createMessage_condition)])"
  by (simp add: createMessage_document_def)

lemma parse_createRoom_document:
  "parse_jtext (createRoom_document e c) =
     Some (JObj [(''version'', JStr ''2018-05-29''),
                 (''operation'', JStr ''PutItem''),
                 (''key'', JObj [(''id'', toDynamoDB (get_field (createRoom_input e c) ''id''))]),
                 (''attributeValues'', toMapValues (createRoom_input e c)),
                 (''condition'', createRoom_condition)])"
  by (simp add: createRoom_document_def)

lemma createMessage_document_owner:
  "\<exists>d a. parse_jtext (createMessage_document e c) = Some d
      \<and> field_of d ''attributeValues'' = Some a
      \<and> field_of a ''owner'' = Some (toDynamoDB (JStr (username c)))"
  by (simp add: parse_createMessage_document field_of_def[of "JObj _"] field_of_toMapValues
      createMessage_input_owner)

lemma createMessage_document_createdAt:
  "\<exists>d a. parse_jtext (createMessage_document e c) = Some d
      \<and> field_of d ''attributeValues'' = Some a
      \<and> field_of a ''createdAt'' =
          Some (toDynamoDB (defaultIfNull (get_field (input c) ''createdAt'') (JStr (nowISO8601 e))))"
  by (simp add: parse_createMessage_document field_of_def[of "JObj _"] field_of_toMapValues
      createMessage_input_createdAt)

lemma createMessage_request_never_readable:
  "evaluate (createMessage_request e c) = Inl MappingTemplate"
  by (simp add: createMessage_request_def Let_def)

lemma listMessageForRoom_names_no_index:
  "map_of (entries (listMessageForRoom_document e c)) ''index'' = None"
  by (simp add: listMessageForRoom_document_def)

lemma listMessageForRoom_flag:
  "map_of (entries (listMessageForRoom_document e c)) ''scanIndexForward'' =
     Some (Lit (JBool (get_field (arguments c) ''sortDirection'' \<noteq> JStr ''DESC'')))"
  by (simp add: listMessageForRoom_document_def isNull_def)

lemma listRooms_nextToken:
  "\<exists>d. evaluate (listRooms_request e c) = Inr d
     \<and> field_of d ''nextToken'' =
         (if truthy (get_field (arguments c) ''nextToken'')
          then Some (get_field (arguments c) ''nextToken'') else None)"
  by (simp add: listRooms_request_def listRooms_ListRequest_def Let_def field_of_def map_of_put)

lemma listMessageForRoom_nextToken_plain:
  assumes "get_field (arguments c) ''nextToken'' = JStr t" and "plain t"
  shows "\<exists>d. evaluate (listMessageForRoom_request e c) = Inr d
     \<and> field_of d ''nextToken'' = Some (JStr t)"
  using assms
  by (simp add: listMessageForRoom_request_def listMessageForRoom_document_def field_of_def
      truthy_def string_body_plain skip_ws_def)

lemma listMessageForRoom_nextToken_absent:
  assumes "get_field (arguments c) ''nextToken'' = JNull"
  shows "\<exists>d. evaluate (listMessageForRoom_request e c) = Inr d
     \<and> field_of d ''nextToken'' = None"
  using assms
  by (simp add: listMessageForRoom_request_def listMessageForRoom_document_def field_of_def
      truthy_def)

lemma response_templates:
  "(error c = Some er \<longrightarrow>
      listMessageForRoom_response c = Raised (message er) (errtype er)
      \<and> listRooms_response c = Raised (message er) (errtype er))
   \<and> (error c = None \<longrightarrow>
      listMessageForRoom_response c = Rendered (result c)
      \<and> listRooms_response c = Rendered (result c))
   \<and> createMessage_response c = Rendered (result c)
   \<and> createRoom_response c = Rendered (result c)"
  by (simp add: listMessageForRoom_response_def listRooms_response_def
      createMessage_response_def createRoom_response_def dynamoDbResultItem_def)

section \<open>Properties of the resolvers\<close>

text \<open>
  C1. No createMessage request writes a record, so none is written with the caller as
  owner. Here caller alice sends the input
  \<^verbatim>\<open>{roomId: "r1", text: "hi", owner: "mallory"}\<close>: the template does put alice under owner
  in the attribute values it prints, but the text in front of the PutItem document (the
  line that begins with \<^verbatim>\<open>util.qr(\<close>) makes the service refuse the request before the
  store is called.
\<close>

theorem createMessage_owner_never_stored:
  "evaluate (createMessage_request
      \<lparr>autoId = ''0f4c'', nowISO8601 = ''2021-03-01T10:00:00.000Z''\<rparr>
      \<lparr>arguments = [],
       input = [(''roomId'', JStr ''r1''), (''text'', JStr ''hi''), (''owner'', JStr ''mallory'')],
       username = ''alice'', error = None, result = JNull\<rparr>)
     = Inl MappingTemplate
   \<and> field_of (toMapValues (createMessage_input
      \<lparr>autoId = ''0f4c'', nowISO8601 = ''2021-03-01T10:00:00.000Z''\<rparr>
      \<lparr>arguments = [],
       input = [(''roomId'', JStr ''r1''), (''text'', JStr ''hi''), (''owner'', JStr ''mallory'')],
       username = ''alice'', error = None, result = JNull\<rparr>)) ''owner''
     = Some (JObj [(''S'', JStr ''alice'')])"
  by (simp add: createMessage_request_def Let_def field_of_toMapValues createMessage_input_owner)

text \<open>
  C2. For an input without createdAt the template does put the current time into the
  input map, but the line that does so begins with \<^verbatim>\<open>util.qr(\<close> instead of
  \<^verbatim>\<open>$util.qr(\<close>: its text is printed in front of the PutItem document, the service cannot
  read the request, and no record is stored. Here for caller alice and the input
  \<^verbatim>\<open>{roomId: "r1", text: "hi"}\<close>.
\<close>

theorem createMessage_request_unreadable:
  "take 3 (createMessage_request
      \<lparr>autoId = ''0f4c'', nowISO8601 = ''2021-03-01T10:00:00.000Z''\<rparr>
      \<lparr>arguments = [], input = [(''roomId'', JStr ''r1''), (''text'', JStr ''hi'')],
       username = ''alice'', error = None, result = JNull\<rparr>)
     = [Text ''util.qr('', Printed JNull, Text '')'']
   \<and> evaluate (createMessage_request
      \<lparr>autoId = ''0f4c'', nowISO8601 = ''2021-03-01T10:00:00.000Z''\<rparr>
      \<lparr>arguments = [], input = [(''roomId'', JStr ''r1''), (''text'', JStr ''hi'')],
       username = ''alice'', error = None, result = JNull\<rparr>)
     = Inl MappingTemplate"
  by (simp add: createMessage_request_def Let_def get_field_def map_of_put)

text \<open>
  C3. The PutItem request of createRoom carries the condition null, for every request:
  the template prints \<^verbatim>\<open>$condition\<close> and never sets it, so nothing in the request lets
  the store reject an id that is already there.
\<close>

theorem createRoom_put_item_unguarded:
  "\<exists>d. evaluate (createRoom_request e c) = Inr d
     \<and> field_of d ''operation'' = Some (JStr ''PutItem'')
     \<and> field_of d ''condition'' = Some JNull"
  by (simp add: createRoom_request_def parse_createRoom_document field_of_def
      createRoom_condition_def)

text \<open>
  C4. A createMessage for the id \<^verbatim>\<open>m1\<close>: the PutItem document that the template prints has
  the condition \<^verbatim>\<open>attribute_not_exists(#id)\<close>, but the text in front of it makes the
  service refuse the request with a mapping template error. No PutItem reaches the
  store, whether or not a record with the id \<^verbatim>\<open>m1\<close> is there, and the caller gets no
  failure of the store.
\<close>

theorem createMessage_duplicate_id_never_reaches_store:
  "evaluate (createMessage_request
      \<lparr>autoId = ''0f4c'', nowISO8601 = ''2021-03-01T10:00:00.000Z''\<rparr>
      \<lparr>arguments = [],
       input = [(''id'', JStr ''m1''), (''roomId'', JStr ''r1''), (''text'', JStr ''hi'')],
       username = ''alice'', error = None, result = JNull\<rparr>)
     = Inl MappingTemplate
   \<and> map_of (entries (createMessage_document
      \<lparr>autoId = ''0f4c'', nowISO8601 = ''2021-03-01T10:00:00.000Z''\<rparr>
      \<lparr>arguments = [],
       input = [(''id'', JStr ''m1''), (''roomId'', JStr ''r1''), (''text'', JStr ''hi'')],
       username = ''alice'', error = None, result = JNull\<rparr>)) ''condition''
     = Some (Lit (JObj [(''expression'', JStr ''attribute_not_exists(#id)''),
                        (''expressionNames'', JObj [(''#id'', JStr ''id'')])]))"
  by (simp add: createMessage_request_def Let_def createMessage_document_def
      createMessage_condition_def)

text \<open>
  C5. A store error in createRoom: the response template, the library's
  \<^verbatim>\<open>dynamoDbResultItem\<close>, prints the result and does not raise the error with its message
  and type, as the response templates of the two queries do.
\<close>

theorem createRoom_error_not_raised:
  "createRoom_response
     \<lparr>arguments = [], input = [(''id'', JStr ''r1'')], username = ''alice'',
      error = Some \<lparr>message = ''Requested resource not found'',
                    errtype = ''DynamoDB:ResourceNotFoundException''\<rparr>,
      result = JNull\<rparr>
   \<noteq> Raised ''Requested resource not found'' ''DynamoDB:ResourceNotFoundException''"
  by (simp add: createRoom_response_def dynamoDbResultItem_def)

text \<open>
  C6. listMessageForRoom for room \<^verbatim>\<open>r1\<close> with sortDirection \<^verbatim>\<open>DESC\<close>: the request carries
  \<^verbatim>\<open>scanIndexForward\<close> false, as it should, but it names no index. The Query therefore
  runs on the table's own key, which is \<^verbatim>\<open>id\<close> alone and has no sort key, and not on the
  index \<^verbatim>\<open>message-by-room-id\<close> that the stack declares with the sort key \<^verbatim>\<open>createdAt\<close>:
  the flag does not order the messages by \<^verbatim>\<open>createdAt\<close>.
\<close>

theorem listMessageForRoom_query_not_on_index:
  "(case evaluate (listMessageForRoom_request
        \<lparr>autoId = ''0f4c'', nowISO8601 = ''2021-03-01T10:00:00.000Z''\<rparr>
        \<lparr>arguments = [(''roomId'', JStr ''r1''), (''sortDirection'', JStr ''DESC'')],
         input = [], username = ''alice'', error = None, result = JNull\<rparr>) of
      Inl err \<Rightarrow> False
    | Inr d \<Rightarrow>
        field_of d ''scanIndexForward'' = Some (JBool False)
        \<and> field_of d ''index'' = None
        \<and> query_keys messageTable d = Some \<lparr>partitionKey = ''id'', sortKey = None\<rparr>)
   \<and> map_of (globalSecondaryIndexes messageTable) ''message-by-room-id''
       = Some \<lparr>partitionKey = ''roomId'', sortKey = Some ''createdAt''\<rparr>"
  by (simp add: listMessageForRoom_request_def listMessageForRoom_document_def get_field_def
      truthy_def isNull_def field_of_def query_keys_def messageTable_def)

text \<open>
  C7. The request of listRooms is always readable and is a Scan: it has no member but
  version, limit, nextToken and operation (so no filter), its limit is the argument limit,
  or 1000 when that is null, and it has the member nextToken, with the argument's value,
  exactly when the argument nextToken passes the template's test.
\<close>

theorem listRooms_scan:
  "\<exists>d. evaluate (listRooms_request e c) = Inr d
     \<and> field_of d ''operation'' = Some (JStr ''Scan'')
     \<and> field_of d ''filter'' = None
     \<and> set (map fst (fields_of d)) \<subseteq> {''version'', ''limit'', ''nextToken'', ''operation''}
     \<and> field_of d ''limit'' =
         Some (if get_field (arguments c) ''limit'' = JNull then JNum 1000
               else get_field (arguments c) ''limit'')
     \<and> field_of d ''nextToken'' =
         (if get_field (arguments c) ''nextToken'' = JNull
             \<or> get_field (arguments c) ''nextToken'' = JBool False then None
          else Some (get_field (arguments c) ''nextToken''))"
  by (simp add: listRooms_request_def listRooms_ListRequest_def Let_def field_of_def map_of_put
      truthy_def defaultIfNull_def isNull_def put_def)

text \<open>
  C8. A nextToken of the two characters backslash and \<^verbatim>\<open>n\<close>: listMessageForRoom prints it
  as it is between two double quotes, and the store is handed a line feed instead of the
  token.
\<close>

theorem nextToken_rewritten:
  "evaluate (listMessageForRoom_request
      \<lparr>autoId = ''0f4c'', nowISO8601 = ''2021-03-01T10:00:00.000Z''\<rparr>
      \<lparr>arguments = [(''roomId'', JStr ''r1''), (''nextToken'', JStr [CHR 0x5C, CHR ''n''])],
       input = [], username = ''alice'', error = None, result = JNull\<rparr>)
   = Inr (JObj [(''version'', JStr ''2017-02-28''),
                (''operation'', JStr ''Query''),
                (''query'', JObj [(''expression'', JStr ''roomId = :roomId''),
                                  (''expressionValue'',
                                   JObj [('':roomId'', JObj [(''S'', JStr ''r1'')])])]),
                (''scanIndexForward'', JBool True),
                (''nextToken'', JStr [CHR 0x0A])])
   \<and> JStr [CHR 0x0A] \<noteq> JStr [CHR 0x5C, CHR ''n'']"
  by (simp add: listMessageForRoom_request_def listMessageForRoom_document_def get_field_def
      truthy_def isNull_def skip_ws_def)

text \<open>
  A nextToken that ends the literal and goes on, here \<^verbatim>\<open>x","limit":"1\<close>: the request has
  a member that the template does not print. And a nextToken of one double quote makes
  the request unreadable.
\<close>

lemma nextToken_adds_member:
  "evaluate (listMessageForRoom_request
      \<lparr>autoId = ''0f4c'', nowISO8601 = ''2021-03-01T10:00:00.000Z''\<rparr>
      \<lparr>arguments = [(''roomId'', JStr ''r1''),
                    (''nextToken'', JStr (''x'' @ [CHR 0x22] @ '','' @ [CHR 0x22] @ ''limit''
                       @ [CHR 0x22] @ '':'' @ [CHR 0x22] @ ''1''))],
       input = [], username = ''alice'', error = None, result = JNull\<rparr>)
   = Inr (JObj [(''version'', JStr ''2017-02-28''),
                (''operation'', JStr ''Query''),
                (''query'', JObj [(''expression'', JStr ''roomId = :roomId''),
                                  (''expressionValue'',
                                   JObj [('':roomId'', JObj [(''S'', JStr ''r1'')])])]),
                (''scanIndexForward'', JBool True),
                (''nextToken'', JStr ''x''),
                (''limit'', JStr ''1'')])"
  by code_simp

lemma nextToken_quote_refused:
  "evaluate (listMessageForRoom_request
      \<lparr>autoId = ''0f4c'', nowISO8601 = ''2021-03-01T10:00:00.000Z''\<rparr>
      \<lparr>arguments = [(''roomId'', JStr ''r1''), (''nextToken'', JStr [CHR 0x22])],
       input = [], username = ''alice'', error = None, result = JNull\<rparr>)
   = Inl MappingTemplate"
  by code_simp

lemma nextToken_unicode_escape:
  "evaluate (listMessageForRoom_request
      \<lparr>autoId = ''0f4c'', nowISO8601 = ''2021-03-01T10:00:00.000Z''\<rparr>
      \<lparr>arguments = [(''roomId'', JStr ''r1''), (''nextToken'', JStr (CHR 0x5C # ''u0041''))],
       input = [], username = ''alice'', error = None, result = JNull\<rparr>)
   = Inr (JObj [(''version'', JStr ''2017-02-28''),
                (''operation'', JStr ''Query''),
                (''query'', JObj [(''expression'', JStr ''roomId = :roomId''),
                                  (''expressionValue'',
                                   JObj [('':roomId'', JObj [(''S'', JStr ''r1'')])])]),
                (''scanIndexForward'', JBool True),
                (''nextToken'', JStr ''A'')])"
  by code_simp

text \<open>
  C9. In the PutItem documents of createMessage and of createRoom the id of the key is
  the id (the input's, or the generated one when the input has none) in the store's
  format, and the attributeValues hold the same value under id.
\<close>

theorem put_item_key_matches_stored_id:
  "(\<exists>d k a. parse_jtext (createMessage_document e c) = Some d
       \<and> field_of d ''key'' = Some k \<and> field_of d ''attributeValues'' = Some a
       \<and> field_of k ''id'' =
           Some (toDynamoDB (defaultIfNull (get_field (input c) ''id'') (JStr (autoId e))))
       \<and> field_of a ''id'' = field_of k ''id'')
   \<and> (\<exists>d k a. parse_jtext (createRoom_document e c) = Some d
       \<and> field_of d ''key'' = Some k \<and> field_of d ''attributeValues'' = Some a
       \<and> field_of k ''id'' =
           Some (toDynamoDB (defaultIfNull (get_field (input c) ''id'') (JStr (autoId e))))
       \<and> field_of a ''id'' = field_of k ''id'')"
proof
  show "\<exists>d k a. parse_jtext (createMessage_document e c) = Some d
       \<and> field_of d ''key'' = Some k \<and> field_of d ''attributeValues'' = Some a
       \<and> field_of k ''id'' =
           Some (toDynamoDB (defaultIfNull (get_field (input c) ''id'') (JStr (autoId e))))
       \<and> field_of a ''id'' = field_of k ''id''"
    by (simp add: parse_createMessage_document field_of_def[of "JObj _"] field_of_toMapValues
        createMessage_input_id get_field_createMessage_input_id)
next
  show "\<exists>d k a. parse_jtext (createRoom_document e c) = Some d
       \<and> field_of d ''key'' = Some k \<and> field_of d ''attributeValues'' = Some a
       \<and> field_of k ''id'' =
           Some (toDynamoDB (defaultIfNull (get_field (input c) ''id'') (JStr (autoId e))))
       \<and> field_of a ''id'' = field_of k ''id''"
    by (simp add: parse_createRoom_document field_of_def[of "JObj _"] field_of_toMapValues
        createRoom_input_id get_field_createRoom_input_id)
qed

text \<open>
  C10. The requests of listMessageForRoom and of listRooms depend on the arguments only:
  two evaluations with the same arguments print the same request, whatever identifier
  and time the utilities would return and whoever calls.
\<close>

theorem read_requests_deterministic:
  "arguments c = arguments c' \<Longrightarrow>
     listMessageForRoom_request e c = listMessageForRoom_request e' c'
     \<and> listRooms_request e c = listRooms_request e' c'"
  by (simp add: listMessageForRoom_request_def listMessageForRoom_document_def
      listRooms_request_def listRooms_ListRequest_def)

theorem read_requests_deterministic_witness:
  "listMessageForRoom_request
      \<lparr>autoId = ''0f4c'', nowISO8601 = ''2021-03-01T10:00:00.000Z''\<rparr>
      \<lparr>arguments = [(''roomId'', JStr ''r1''), (''sortDirection'', JStr ''DESC'')],
       input = [], username = ''alice'', error = None, result = JNull\<rparr>
   = listMessageForRoom_request
      \<lparr>autoId = ''77aa'', nowISO8601 = ''2022-07-09T23:59:59.000Z''\<rparr>
      \<lparr>arguments = [(''roomId'', JStr ''r1''), (''sortDirection'', JStr ''DESC'')],
       input = [(''x'', JNum 1)], username = ''bob'', error = None, result = JBool True\<rparr>
   \<and> listRooms_request
      \<lparr>autoId = ''0f4c'', nowISO8601 = ''2021-03-01T10:00:00.000Z''\<rparr>
      \<lparr>arguments = [(''roomId'', JStr ''r1''), (''sortDirection'', JStr ''DESC'')],
       input = [], username = ''alice'', error = None, result = JNull\<rparr>
   = listRooms_request
      \<lparr>autoId = ''77aa'', nowISO8601 = ''2022-07-09T23:59:59.000Z''\<rparr>
      \<lparr>arguments = [(''roomId'', JStr ''r1''), (''sortDirection'', JStr ''DESC'')],
       input = [(''x'', JNum 1)], username = ''bob'', error = None, result = JBool True\<rparr>"
  using read_requests_deterministic [of
      "\<lparr>arguments = [(''roomId'', JStr ''r1''), (''sortDirection'', JStr ''DESC'')],
        input = [], username = ''alice'', error = None, result = JNull\<rparr>"
      "\<lparr>arguments = [(''roomId'', JStr ''r1''), (''sortDirection'', JStr ''DESC'')],
        input = [(''x'', JNum 1)], username = ''bob'', error = None, result = JBool True\<rparr>"
      "\<lparr>autoId = ''0f4c'', nowISO8601 = ''2021-03-01T10:00:00.000Z''\<rparr>"
      "\<lparr>autoId = ''77aa'', nowISO8601 = ''2022-07-09T23:59:59.000Z''\<rparr>"]
  by simp

end
